theory Spec2Isabelle
  imports Main "HOL-Library.Sublist"
begin

section \<open>Data model (types.ts)\<close>

text \<open>
  The enum \<open>TemplateType\<close> has three members; at run time each member is its string
  value, which is what the services receive.
\<close>

datatype TemplateType = TYPESCRIPT_EXPRESS | GO_CLEAN_ARCH | CLI_TOOL

fun TemplateType_value :: "TemplateType \<Rightarrow> string" where
  "TemplateType_value TYPESCRIPT_EXPRESS = ''TypeScript/Express''"
| "TemplateType_value GO_CLEAN_ARCH = ''Go/Clean-Arch''"
| "TemplateType_value CLI_TOOL = ''Node.js CLI (temp-gen)''"

definition TemplateType_values :: "string list" where
  \<comment> \<open>\<open>Object.values(TemplateType)\<close>, in declaration order\<close>
  "TemplateType_values = map TemplateType_value [TYPESCRIPT_EXPRESS, GO_CLEAN_ARCH, CLI_TOOL]"

record GeneratedFile =
  path :: string
  content :: string
  language :: string

record ProjectStructure =
  projectName :: string
  template :: TemplateType
  files :: "GeneratedFile list"

record ArchitectureInfo =
  overview :: string
  keyFeatures :: "string list"
  deploymentStrategy :: string

record ProjectOptions =
  includeTests :: bool
  includeLinter :: bool


section \<open>Architecture service (services/architectureService.ts)\<close>

text \<open>
  \<open>mockResponses\<close> is an object literal with three own properties. The function reads
  \<open>mockResponses[template]\<close> and falls back with \<open>||\<close>. A property read on an object
  literal also finds the members it inherits from \<open>Object.prototype\<close>, all of which are
  functions or objects and hence truthy; a name found nowhere reads as \<open>undefined\<close>.
\<close>

datatype js_value =
    Undefined
  | Info ArchitectureInfo
  | Inherited string  \<comment> \<open>the member of \<open>Object.prototype\<close> with that name\<close>

datatype 'a promise = Fulfilled 'a | Rejected string

definition mockResponses :: "(string \<times> ArchitectureInfo) list" where
  "mockResponses =
    [(''TypeScript/Express'',
      \<lparr>overview = ''Express.js provides a lightweight and flexible framework for building scalable microservices. It offers excellent middleware support and integrates seamlessly with TypeScript for type-safe development.'',
       keyFeatures = [''Middleware-based request handling'',
                      ''Async/await support for clean async code'',
                      ''Extensive ecosystem of compatible packages''],
       deploymentStrategy = ''Deploy as containerized service using Docker. Use environment variables for configuration. Consider using PM2 or similar process managers for production stability.''\<rparr>),
     (''Go/Clean-Arch'',
      \<lparr>overview = ''Go excels at building efficient, concurrent microservices with minimal resource usage. Its built-in concurrency primitives and fast compilation make it ideal for high-performance services.'',
       keyFeatures = [''Goroutines for efficient concurrency'',
                      ''Fast compilation to binary'',
                      ''Built-in testing framework''],
       deploymentStrategy = ''Compile to a single binary and run directly or containerize with minimal Docker images. Go's static compilation makes deployment straightforward and efficient.''\<rparr>),
     (''Node.js CLI (temp-gen)'',
      \<lparr>overview = ''Node.js CLI tools leverage JavaScript/TypeScript for cross-platform command-line utilities. They're perfect for development tools and automation scripts.'',
       keyFeatures = [''Universal Node.js ecosystem'',
                      ''Cross-platform compatibility'',
                      ''Interactive prompt handling with libraries like inquirer''],
       deploymentStrategy = ''Publish to npm registry. Users can install globally with npm install -g. Include proper error handling and help documentation.''\<rparr>)]"

definition fallbackInfo :: ArchitectureInfo where
  "fallbackInfo =
     \<lparr>overview = ''Architecture details for the selected template.'',
      keyFeatures = [''Feature 1'', ''Feature 2''],
      deploymentStrategy = ''Deploy using standard practices for this stack.''\<rparr>"

definition Object_prototype :: "string list" where
  \<comment> \<open>the property names every object literal inherits (ECMAScript, with Annex B)\<close>
  "Object_prototype =
     [''constructor'', ''hasOwnProperty'', ''isPrototypeOf'', ''propertyIsEnumerable'',
      ''toLocaleString'', ''toString'', ''valueOf'', ''__proto__'',
      ''__defineGetter__'', ''__defineSetter__'', ''__lookupGetter__'', ''__lookupSetter__'']"

definition js_get :: "(string \<times> ArchitectureInfo) list \<Rightarrow> string \<Rightarrow> js_value" where
  \<comment> \<open>\<open>obj[key]\<close>: own properties first, then the prototype chain\<close>
  "js_get obj k =
     (case map_of obj k of
        Some v \<Rightarrow> Info v
      | None \<Rightarrow> if k \<in> set Object_prototype then Inherited k else Undefined)"

fun truthy :: "js_value \<Rightarrow> bool" where
  "truthy Undefined = False"
| "truthy (Info _) = True"
| "truthy (Inherited _) = True"

definition js_or :: "js_value \<Rightarrow> js_value \<Rightarrow> js_value" where
  \<comment> \<open>\<open>a || b\<close>\<close>
  "js_or a b = (if truthy a then a else b)"

definition getArchitectureExplanation :: "string \<Rightarrow> js_value promise" where
  "getArchitectureExplanation t = Fulfilled (js_or (js_get mockResponses t) (Info fallbackInfo))"


section \<open>The form handler (App.tsx)\<close>

text \<open>
  The component state, one field per \<open>useState\<close> hook. The engine
  \<open>generateFiles\<close> lives in services/templateService.ts; the handler only calls it, so
  it is a parameter here: it either returns the file list or throws.
\<close>

text \<open>
  Modelled from the spec: the two kinds of failure of section 7, which the engine signals
  by throwing. The handler catches whatever is thrown and does not look at it.
\<close>

datatype error = PreconditionViolation | CatalogInconsistency

type_synonym engine = "string \<Rightarrow> string \<Rightarrow> ProjectOptions \<Rightarrow> error + GeneratedFile list"

type_synonym engine_call = "string \<times> string \<times> ProjectOptions"

record AppState =
  st_projectName :: string
  st_template :: TemplateType
  st_logs :: "string list"
  st_isGenerating :: bool
  st_result :: "ProjectStructure option"
  st_explanation :: "js_value option"
  st_selectedFile :: "GeneratedFile option"
  st_copied :: bool
  st_projectOptions :: ProjectOptions
  st_showDesignInfo :: "nat option"

definition initialState :: AppState where
  \<comment> \<open>the arguments of the \<open>useState\<close> calls\<close>
  "initialState =
     \<lparr>st_projectName = '''',
      st_template = TYPESCRIPT_EXPRESS,
      st_logs = [],
      st_isGenerating = False,
      st_result = None,
      st_explanation = None,
      st_selectedFile = None,
      st_copied = False,
      st_projectOptions = \<lparr>includeTests = True, includeLinter = True\<rparr>,
      st_showDesignInfo = None\<rparr>"

definition setLogs :: "string \<Rightarrow> AppState \<Rightarrow> AppState" where
  \<comment> \<open>\<open>setLogs((prev) => [...prev, msg])\<close>\<close>
  "setLogs msg s = s\<lparr>st_logs := st_logs s @ [msg]\<rparr>"

definition yesNo :: "bool \<Rightarrow> string" where
  "yesNo b = (if b then ''Yes'' else ''No'')"

definition first_file :: "GeneratedFile list \<Rightarrow> GeneratedFile option" where
  \<comment> \<open>\<open>files[0]\<close>; \<open>undefined\<close> on the empty array\<close>
  "first_file fs = (case fs of [] \<Rightarrow> None | f # _ \<Rightarrow> Some f)"

definition finish :: "AppState \<Rightarrow> AppState" where
  \<comment> \<open>the \<open>finally\<close> block\<close>
  "finish s = s\<lparr>st_isGenerating := False\<rparr>"

definition beforeGenerate :: "AppState \<Rightarrow> AppState" where
  \<comment> \<open>the handler from the guard to its first \<open>await\<close>\<close>
  "beforeGenerate s =
     (let s1 = s\<lparr>st_isGenerating := True\<rparr>;
          s2 = setLogs ''Starting generation...'' s1;
          s3 = s2\<lparr>st_result := None, st_explanation := None\<rparr>;
          s4 = setLogs (''Template: '' @ TemplateType_value (st_template s)) s3;
          s5 = setLogs (''Include Tests: '' @ yesNo (includeTests (st_projectOptions s))) s4
      in setLogs (''Include Linter: '' @ yesNo (includeLinter (st_projectOptions s))) s5)"

definition doneMessage :: "string \<Rightarrow> TemplateType \<Rightarrow> string" where
  "doneMessage name t =
     ''Done! Generated '' @ [CHR 0x22] @ name @ [CHR 0x22] @ '' with '' @ TemplateType_value t @ ''.''"

definition handleGenerate :: "engine \<Rightarrow> AppState \<Rightarrow> AppState list \<times> engine_call list" where
  \<comment> \<open>The states the component commits, one at each \<open>await\<close> and one when the handler
      ends (the last is the final state), and the calls made to the engine. The values
      \<open>projectName\<close>, \<open>template\<close> and \<open>projectOptions\<close> are those of the render
      the handler was created in. The submit button is disabled while \<open>isGenerating\<close>
      holds, so no second run interleaves with this one.\<close>
  "handleGenerate generateFiles s =
     (if st_projectName s = '''' then ([s], [])
      else
        let name = st_projectName s; t = st_template s; opts = st_projectOptions s;
            call = (name, TemplateType_value t, opts);
            a = beforeGenerate s;
            b = setLogs ''Reading template files...'' a
        in case generateFiles name (TemplateType_value t) opts of
             Inl _ \<Rightarrow> ([a, finish (setLogs ''ERROR: Backend connection failed.'' b)], [call])
           | Inr fs \<Rightarrow>
               let c = b\<lparr>st_result := Some \<lparr>projectName = name, template = t, files = fs\<rparr>,
                          st_selectedFile := first_file fs\<rparr>;
                   d = setLogs ''Fetching architecture details...''
                         (setLogs ''Processing files...'' c)
               in (case getArchitectureExplanation (TemplateType_value t) of
                     Fulfilled archExplanation \<Rightarrow>
                       ([a, c, d,
                         finish (setLogs (doneMessage name t)
                                   (d\<lparr>st_explanation := Some archExplanation\<rparr>))], [call])
                   | Rejected _ \<Rightarrow>
                       ([a, c, d, finish (setLogs ''ERROR: Backend connection failed.'' d)],
                        [call])))"


section \<open>The generation engine (services/templateService.ts)\<close>

text \<open>
  Modelled from the spec: services/templateService.ts, which defines
  \<open>generateFiles\<close>, the blueprint type and the blueprint catalog, is not among the
  sources. The definitions of this section follow sections 3, 4.1 and 7 of the
  specification. The hand-authored catalog itself is given nowhere, so it is a parameter.
\<close>

text \<open>
  Modelled from the spec: the option flags by which a blueprint or a fragment is gated,
  one for each field of \<open>ProjectOptions\<close>.
\<close>

datatype OptionFlag = IncludeTests | IncludeLinter

fun enabled :: "ProjectOptions \<Rightarrow> OptionFlag \<Rightarrow> bool" where
  \<comment> \<open>Modelled from the spec: a required-option predicate, evaluated against the
      options record.\<close>
  "enabled opts IncludeTests = includeTests opts"
| "enabled opts IncludeLinter = includeLinter opts"

text \<open>
  Modelled from the spec: a path pattern or content template is a sequence of literal
  text and project-name placeholders; a content template is a fixed skeleton with
  fragments, each keyed by one option flag, concatenated in order.
\<close>

datatype piece = Lit string | NamePlaceholder

datatype fragment = Fixed piece | Toggled OptionFlag "piece list"

text \<open>
  Modelled from the spec: a FileBlueprint is a path pattern, a content template, a
  declared language tag, and zero or more required options that gate its inclusion.
\<close>

record FileBlueprint =
  pathPattern :: "piece list"
  contentTemplate :: "fragment list"
  languageTag :: string
  requiredOptions :: "OptionFlag list"

type_synonym catalog = "TemplateType \<Rightarrow> FileBlueprint list"

definition templateOfIdentifier :: "string \<Rightarrow> TemplateType option" where
  \<comment> \<open>Modelled from the spec: step 1, the look-up of the template identifier in the
      closed set of supported identifiers (the values of the enum in types.ts).\<close>
  "templateOfIdentifier ident =
     (if ident = TemplateType_value TYPESCRIPT_EXPRESS then Some TYPESCRIPT_EXPRESS
      else if ident = TemplateType_value GO_CLEAN_ARCH then Some GO_CLEAN_ARCH
      else if ident = TemplateType_value CLI_TOOL then Some CLI_TOOL
      else None)"

definition gate :: "ProjectOptions \<Rightarrow> FileBlueprint \<Rightarrow> bool" where
  \<comment> \<open>Modelled from the spec: step 2, the gating predicate; a baseline file requires
      nothing and always passes.\<close>
  "gate opts bp = list_all (enabled opts) (requiredOptions bp)"

fun substitutePiece :: "string \<Rightarrow> piece \<Rightarrow> piece" where
  \<comment> \<open>Modelled from the spec: step 3 at one position; the name is taken verbatim.\<close>
  "substitutePiece n NamePlaceholder = Lit n"
| "substitutePiece n (Lit s) = Lit s"

definition substituteName :: "string \<Rightarrow> piece list \<Rightarrow> piece list" where
  \<comment> \<open>Modelled from the spec: step 3, every placeholder becomes the literal name.\<close>
  "substituteName n ps = map (substitutePiece n) ps"

fun activeSegments :: "ProjectOptions \<Rightarrow> fragment list \<Rightarrow> (OptionFlag option \<times> piece list) list" where
  \<comment> \<open>Modelled from the spec: step 4, the skeleton and the fragments whose flag is on,
      in order, each with the flag that contributed it.\<close>
  "activeSegments opts [] = []"
| "activeSegments opts (Fixed p # fs) = (None, [p]) # activeSegments opts fs"
| "activeSegments opts (Toggled g ps # fs) =
     (if enabled opts g then (Some g, ps) # activeSegments opts fs
      else activeSegments opts fs)"

definition activeFragments :: "ProjectOptions \<Rightarrow> fragment list \<Rightarrow> piece list" where
  \<comment> \<open>Modelled from the spec: step 4, the ordered concatenation of the active
      segments.\<close>
  "activeFragments opts fs = concat (map snd (activeSegments opts fs))"

fun emit :: "piece list \<Rightarrow> error + string" where
  \<comment> \<open>Modelled from the spec: the text of a resolved template; a placeholder left
      unresolved is a catalog inconsistency (section 7) and fails.\<close>
  "emit [] = Inr []"
| "emit (Lit s # ps) = (case emit ps of Inl e \<Rightarrow> Inl e | Inr r \<Rightarrow> Inr (s @ r))"
| "emit (NamePlaceholder # ps) = Inl CatalogInconsistency"

definition resolveFile :: "string \<Rightarrow> ProjectOptions \<Rightarrow> FileBlueprint \<Rightarrow> error + GeneratedFile" where
  \<comment> \<open>Modelled from the spec: steps 3 to 5 for one retained blueprint.\<close>
  "resolveFile n opts bp =
     (case emit (substituteName n (pathPattern bp)) of
        Inl e \<Rightarrow> Inl e
      | Inr p \<Rightarrow>
          (case emit (substituteName n (activeFragments opts (contentTemplate bp))) of
             Inl e \<Rightarrow> Inl e
           | Inr c \<Rightarrow> Inr \<lparr>path = p, content = c, language = languageTag bp\<rparr>))"

fun resolveAll :: "string \<Rightarrow> ProjectOptions \<Rightarrow> FileBlueprint list \<Rightarrow> error + GeneratedFile list" where
  \<comment> \<open>Modelled from the spec: step 6, the retained blueprints resolved in the catalog's
      order; the first failure ends the generation.\<close>
  "resolveAll n opts [] = Inr []"
| "resolveAll n opts (bp # bps) =
     (case resolveFile n opts bp of
        Inl e \<Rightarrow> Inl e
      | Inr f \<Rightarrow> (case resolveAll n opts bps of Inl e \<Rightarrow> Inl e | Inr fs \<Rightarrow> Inr (f # fs)))"

definition generateFiles :: "catalog \<Rightarrow> string \<Rightarrow> string \<Rightarrow> ProjectOptions \<Rightarrow> error + GeneratedFile list" where
  \<comment> \<open>Modelled from the spec: the algorithm of section 4.1. An unsupported identifier is
      refused; two blueprints resolving to one path are a catalog inconsistency and the
      engine fails rather than return the list (section 7). The specification leaves the
      empty project name open; here it is substituted like any other name.\<close>
  "generateFiles cat n ident opts =
     (case templateOfIdentifier ident of
        None \<Rightarrow> Inl PreconditionViolation
      | Some t \<Rightarrow>
          (case resolveAll n opts (filter (gate opts) (cat t)) of
             Inl e \<Rightarrow> Inl e
           | Inr fs \<Rightarrow> if distinct (map path fs) then Inr fs else Inl CatalogInconsistency))"




subsection \<open>Notions used to state the properties of the engine\<close>

text \<open>
  Modelled from the spec: the vocabulary of the testable properties of section 8 (the
  name-bearing positions of a template, one option switched with all else fixed, a file
  without the fragments of one option). None of it is part of the engine.
\<close>

fun fillPiece :: "string \<Rightarrow> piece \<Rightarrow> string" where
  "fillPiece n (Lit s) = s"
| "fillPiece n NamePlaceholder = n"

definition fill :: "string \<Rightarrow> piece list \<Rightarrow> string" where
  \<comment> \<open>the template's text with the name at the name-bearing positions and every
      literal unchanged\<close>
  "fill n ps = concat (map (fillPiece n) ps)"

definition render :: "string \<Rightarrow> ProjectOptions \<Rightarrow> FileBlueprint \<Rightarrow> GeneratedFile" where
  "render n opts bp =
     \<lparr>path = fill n (pathPattern bp),
      content = fill n (activeFragments opts (contentTemplate bp)),
      language = languageTag bp\<rparr>"



definition exampleCatalog :: catalog where
  \<comment> \<open>a small catalog in the shape of the specification's example scenarios: a
      descriptor with one fragment per option, a container file, one test file, one lint
      file; used to instantiate the theorems below\<close>
  "exampleCatalog t =
     (case t of
        TYPESCRIPT_EXPRESS \<Rightarrow>
          [\<lparr>pathPattern = [Lit ''package.json''],
            contentTemplate = [Fixed (Lit ''name: ''), Fixed NamePlaceholder,
                               Toggled IncludeTests [Lit '' jest''],
                               Toggled IncludeLinter [Lit '' eslint'']],
            languageTag = ''json'', requiredOptions = []\<rparr>,
           \<lparr>pathPattern = [Lit ''Dockerfile''],
            contentTemplate = [Fixed (Lit ''LABEL ''), Fixed NamePlaceholder],
            languageTag = ''dockerfile'', requiredOptions = []\<rparr>,
           \<lparr>pathPattern = [Lit ''jest.config.js''],
            contentTemplate = [Fixed (Lit ''displayName: ''), Fixed NamePlaceholder],
            languageTag = ''javascript'', requiredOptions = [IncludeTests]\<rparr>,
           \<lparr>pathPattern = [Lit ''.eslintrc.json''],
            contentTemplate = [Fixed (Lit ''root: true'')],
            languageTag = ''json'', requiredOptions = [IncludeLinter]\<rparr>]
      | GO_CLEAN_ARCH \<Rightarrow>
          [\<lparr>pathPattern = [Lit ''cmd/'', NamePlaceholder, Lit ''/main.go''],
            contentTemplate = [Fixed (Lit ''package main'')],
            languageTag = ''go'', requiredOptions = []\<rparr>,
           \<lparr>pathPattern = [Lit ''go.mod''],
            contentTemplate = [Fixed (Lit ''module ''), Fixed NamePlaceholder],
            languageTag = ''go'', requiredOptions = []\<rparr>]
      | CLI_TOOL \<Rightarrow>
          [\<lparr>pathPattern = [Lit ''bin/'', NamePlaceholder, Lit ''.js''],
            contentTemplate = [Fixed (Lit ''run ''), Fixed NamePlaceholder],
            languageTag = ''javascript'', requiredOptions = []\<rparr>,
           \<lparr>pathPattern = [Lit ''cli.test.js''],
            contentTemplate = [Fixed (Lit ''test ''), Fixed NamePlaceholder],
            languageTag = ''javascript'', requiredOptions = [IncludeTests]\<rparr>])"



section \<open>Properties of the architecture service\<close>

lemma map_of_mockResponses_None:
  "t \<notin> set TemplateType_values \<Longrightarrow> map_of mockResponses t = None"
  by (simp add: mockResponses_def TemplateType_values_def)

lemma getArchitectureExplanation_Fulfilled:
  "\<exists>v. getArchitectureExplanation t = Fulfilled v"
  by (simp add: getArchitectureExplanation_def)

text \<open>
  Claim C9, amended. \<open>getArchitectureExplanation\<close> never rejects. For each of the three
  \<open>TemplateType\<close> values it resolves with the entry of \<open>mockResponses\<close> for that value,
  which differs from the generic fallback and from the entries of the other two values. For
  a string outside the enum that is not the name of a member inherited from
  \<open>Object.prototype\<close> it resolves with the generic fallback.
\<close>

theorem getArchitectureExplanation_total:
  "(\<exists>v. getArchitectureExplanation t = Fulfilled v) \<and>
   (\<exists>i. getArchitectureExplanation (TemplateType_value tt) = Fulfilled (Info i) \<and>
        map_of mockResponses (TemplateType_value tt) = Some i \<and> i \<noteq> fallbackInfo) \<and>
   (tt \<noteq> tt' \<longrightarrow>
      getArchitectureExplanation (TemplateType_value tt) \<noteq>
      getArchitectureExplanation (TemplateType_value tt')) \<and>
   (t \<notin> set TemplateType_values \<and> t \<notin> set Object_prototype \<longrightarrow>
      getArchitectureExplanation t = Fulfilled (Info fallbackInfo))"
proof (intro conjI)
  show "\<exists>v. getArchitectureExplanation t = Fulfilled v"
    by (rule getArchitectureExplanation_Fulfilled)
  show "\<exists>i. getArchitectureExplanation (TemplateType_value tt) = Fulfilled (Info i) \<and>
        map_of mockResponses (TemplateType_value tt) = Some i \<and> i \<noteq> fallbackInfo"
    by (cases tt)
       (simp_all add: getArchitectureExplanation_def js_get_def js_or_def mockResponses_def
          fallbackInfo_def)
  show "tt \<noteq> tt' \<longrightarrow>
      getArchitectureExplanation (TemplateType_value tt) \<noteq>
      getArchitectureExplanation (TemplateType_value tt')"
    by (cases tt; cases tt')
       (simp_all add: getArchitectureExplanation_def js_get_def js_or_def mockResponses_def)
  show "t \<notin> set TemplateType_values \<and> t \<notin> set Object_prototype \<longrightarrow>
      getArchitectureExplanation t = Fulfilled (Info fallbackInfo)"
    by (simp add: getArchitectureExplanation_def js_get_def js_or_def map_of_mockResponses_None)
qed

text \<open>The theorem at the string \<open>Rust/Actix\<close> and at two different enum values.\<close>

theorem getArchitectureExplanation_total_witness:
  "''Rust/Actix'' \<notin> set TemplateType_values \<and> ''Rust/Actix'' \<notin> set Object_prototype \<and>
   getArchitectureExplanation ''Rust/Actix'' = Fulfilled (Info fallbackInfo) \<and>
   GO_CLEAN_ARCH \<noteq> CLI_TOOL \<and>
   getArchitectureExplanation (TemplateType_value GO_CLEAN_ARCH) \<noteq>
   getArchitectureExplanation (TemplateType_value CLI_TOOL)"
  using getArchitectureExplanation_total [of "''Rust/Actix''" GO_CLEAN_ARCH CLI_TOOL]
  by (simp add: TemplateType_values_def Object_prototype_def)

text \<open>
  Claim C9 as stated says that every string outside the enum yields the generic fallback.
  The string \<open>constructor\<close> is outside the enum, but the read
  \<open>mockResponses["constructor"]\<close> finds the inherited constructor, which is truthy, so
  the fallback is not taken.
\<close>

theorem fallback_counterexample:
  "''constructor'' \<notin> set TemplateType_values \<and>
   getArchitectureExplanation ''constructor'' = Fulfilled (Inherited ''constructor'') \<and>
   getArchitectureExplanation ''constructor'' \<noteq> Fulfilled (Info fallbackInfo)"
  by (simp add: TemplateType_values_def getArchitectureExplanation_def js_get_def js_or_def
        mockResponses_def Object_prototype_def)


section \<open>Properties of the form handler\<close>

lemma st_result_setLogs [simp]: "st_result (setLogs m s) = st_result s"
  by (simp add: setLogs_def)

lemma st_result_finish [simp]: "st_result (finish s) = st_result s"
  by (simp add: finish_def)

lemma st_result_beforeGenerate [simp]: "st_result (beforeGenerate s) = None"
  by (simp add: beforeGenerate_def Let_def)

lemma st_logs_finish [simp]: "st_logs (finish s) = st_logs s"
  by (simp add: finish_def)

lemma st_logs_setLogs [simp]: "st_logs (setLogs m s) = st_logs s @ [m]"
  by (simp add: setLogs_def)

lemma handleGenerate_calls:
  "snd (handleGenerate gen s) =
     (if st_projectName s = '''' then []
      else [(st_projectName s, TemplateType_value (st_template s), st_projectOptions s)])"
  by (auto simp: handleGenerate_def Let_def split: sum.splits promise.splits)

text \<open>
  Claim C6, amended. The option record the form starts with has both switches on: tests and
  linter configuration are included unless the user clears the checkboxes. Both fields of
  \<open>ProjectOptions\<close> are mandatory, so a caller always supplies a value for each.
\<close>

theorem initial_options_enabled:
  "includeTests (st_projectOptions initialState) = True \<and>
   includeLinter (st_projectOptions initialState) = True"
  by (simp add: initialState_def)

text \<open>
  Claim C6 as stated says that both switches default to false. The initial state of the
  form shows otherwise.
\<close>

theorem default_false_counterexample:
  "\<not> (includeTests (st_projectOptions initialState) = False \<and>
      includeLinter (st_projectOptions initialState) = False)"
  by (simp add: initialState_def)

text \<open>
  Claim C8 (all or nothing). Let the project name be non-empty, and let the engine be any
  function that returns a file list or throws. If it throws, every state the component
  commits during the run has no result, and the log ends with the error message. If it
  returns the list \<open>fs\<close>, every committed state has either no result or the complete
  structure built from \<open>fs\<close>, and the final state has the complete structure. The
  result is cleared before the call and set only after it has returned.
\<close>

theorem handleGenerate_all_or_nothing:
  assumes "st_projectName s \<noteq> ''''"
  shows "case gen (st_projectName s) (TemplateType_value (st_template s)) (st_projectOptions s) of
           Inl e \<Rightarrow>
             (\<forall>s' \<in> set (fst (handleGenerate gen s)). st_result s' = None) \<and>
             last (st_logs (last (fst (handleGenerate gen s)))) = ''ERROR: Backend connection failed.''
         | Inr fs \<Rightarrow>
             (\<forall>s' \<in> set (fst (handleGenerate gen s)).
                st_result s' = None \<or>
                st_result s' = Some \<lparr>projectName = st_projectName s, template = st_template s, files = fs\<rparr>) \<and>
             st_result (last (fst (handleGenerate gen s))) =
               Some \<lparr>projectName = st_projectName s, template = st_template s, files = fs\<rparr>"
  using assms getArchitectureExplanation_Fulfilled [of "TemplateType_value (st_template s)"]
  by (auto simp: handleGenerate_def Let_def split: sum.splits)

text \<open>
  The theorem at the name \<open>user-api\<close>, once with an engine that throws and once with an
  engine that returns.
\<close>

theorem handleGenerate_all_or_nothing_witness:
  "st_projectName (initialState\<lparr>st_projectName := ''user-api''\<rparr>) \<noteq> '''' \<and>
   map st_result
     (fst (handleGenerate (\<lambda>n t opts. Inl PreconditionViolation)
            (initialState\<lparr>st_projectName := ''user-api''\<rparr>))) = [None, None] \<and>
   last (st_logs (last (fst (handleGenerate (\<lambda>n t opts. Inl PreconditionViolation)
            (initialState\<lparr>st_projectName := ''user-api''\<rparr>)))))
     = ''ERROR: Backend connection failed.'' \<and>
   st_result
     (last (fst (handleGenerate (\<lambda>n t opts. Inr [])
            (initialState\<lparr>st_projectName := ''user-api''\<rparr>)))) =
     Some \<lparr>projectName = ''user-api'', template = TYPESCRIPT_EXPRESS, files = []\<rparr>"
  using handleGenerate_all_or_nothing
          [of "initialState\<lparr>st_projectName := ''user-api''\<rparr>" "\<lambda>n t opts. Inl PreconditionViolation"]
        handleGenerate_all_or_nothing
          [of "initialState\<lparr>st_projectName := ''user-api''\<rparr>" "\<lambda>n t opts. Inr []"]
  by (simp add: handleGenerate_def Let_def initialState_def)

text \<open>
  Claim C10 (guard on the empty name). With the empty project name the handler returns at
  once: the state is unchanged and the engine is not called. Whatever the state, no call of
  the engine made by the handler has the empty string as its project name.
\<close>

theorem handleGenerate_guard:
  "(st_projectName s = '''' \<longrightarrow> handleGenerate gen s = ([s], [])) \<and>
   (\<forall>c \<in> set (snd (handleGenerate gen s)). fst c \<noteq> '''')"
  by (auto simp: handleGenerate_def Let_def split: sum.splits promise.splits)

text \<open>
  The theorem at the initial state, whose name is empty, and at the same state with the
  name \<open>user-api\<close>, where the engine is called once.
\<close>

theorem handleGenerate_guard_witness:
  "st_projectName initialState = '''' \<and>
   handleGenerate (\<lambda>n t opts. Inr []) initialState = ([initialState], []) \<and>
   snd (handleGenerate (\<lambda>n t opts. Inr []) (initialState\<lparr>st_projectName := ''user-api''\<rparr>)) =
     [(''user-api'', ''TypeScript/Express'', \<lparr>includeTests = True, includeLinter = True\<rparr>)] \<and>
   fst (''user-api'', ''TypeScript/Express'', \<lparr>includeTests = True, includeLinter = True\<rparr>) \<noteq> ''''"
  using handleGenerate_guard [of initialState "\<lambda>n t opts. Inr []"]
        handleGenerate_guard [of "initialState\<lparr>st_projectName := ''user-api''\<rparr>" "\<lambda>n t opts. Inr []"]
  by (simp add: initialState_def handleGenerate_calls)


section \<open>Properties of the generation engine\<close>

lemma emit_substituteName: "emit (substituteName n ps) = Inr (fill n ps)"
proof (induction ps)
  case Nil
  show ?case by (simp add: substituteName_def fill_def)
next
  case (Cons p ps)
  then show ?case by (cases p) (simp_all add: substituteName_def fill_def)
qed

lemma resolveFile_render: "resolveFile n opts bp = Inr (render n opts bp)"
  by (simp add: resolveFile_def render_def emit_substituteName)

lemma resolveAll_render: "resolveAll n opts bps = Inr (map (render n opts) bps)"
  by (induction bps) (simp_all add: resolveFile_render)

lemma generateFiles_unfold:
  "generateFiles cat n ident opts =
     (case templateOfIdentifier ident of
        None \<Rightarrow> Inl PreconditionViolation
      | Some t \<Rightarrow>
          if distinct (map path (map (render n opts) (filter (gate opts) (cat t))))
          then Inr (map (render n opts) (filter (gate opts) (cat t)))
          else Inl CatalogInconsistency)"
  by (simp add: generateFiles_def resolveAll_render split: option.splits)

lemma templateOfIdentifier_value [simp]: "templateOfIdentifier (TemplateType_value t) = Some t"
  by (cases t) (simp_all add: templateOfIdentifier_def)

lemma templateOfIdentifier_None:
  "templateOfIdentifier ident = None \<longleftrightarrow> ident \<notin> set TemplateType_values"
  by (simp add: templateOfIdentifier_def TemplateType_values_def)

lemma templateOfIdentifier_Some:
  "templateOfIdentifier ident = Some t \<Longrightarrow> ident = TemplateType_value t"
  by (auto simp: templateOfIdentifier_def split: if_splits)

lemma path_render [simp]: "path (render n opts bp) = fill n (pathPattern bp)"
  by (simp add: render_def)

lemma language_render [simp]: "language (render n opts bp) = languageTag bp"
  by (simp add: render_def)


lemma generateFiles_Inr:
  assumes "generateFiles cat n ident opts = Inr fs" "templateOfIdentifier ident = Some t"
  shows "fs = map (render n opts) (filter (gate opts) (cat t))"
    and "distinct (map (\<lambda>bp. fill n (pathPattern bp)) (filter (gate opts) (cat t)))"
  using assms by (auto simp: generateFiles_unfold o_def split: if_splits)

text \<open>
  Claim C4 (closed template set). For every project name and options, a template identifier
  outside the three values of \<open>TemplateType\<close> makes the engine fail with a precondition
  violation; no file list is returned, neither a partial nor an empty one.
\<close>

theorem generateFiles_unsupported_template:
  "ident \<notin> set TemplateType_values \<Longrightarrow>
     generateFiles cat n ident opts = Inl PreconditionViolation \<and>
     (\<forall>fs. generateFiles cat n ident opts \<noteq> Inr fs)"
  by (simp add: generateFiles_def templateOfIdentifier_None [symmetric])

text \<open>The theorem at the identifier \<open>Rust/Actix\<close>.\<close>

theorem generateFiles_unsupported_template_witness:
  "''Rust/Actix'' \<notin> set TemplateType_values \<and>
   generateFiles exampleCatalog ''user-api'' ''Rust/Actix''
     \<lparr>includeTests = True, includeLinter = True\<rparr> = Inl PreconditionViolation"
proof -
  have h: "''Rust/Actix'' \<notin> set TemplateType_values"
    by (simp add: TemplateType_values_def)
  from generateFiles_unsupported_template [OF h] h show ?thesis by blast
qed

text \<open>
  Claim C2 (path uniqueness). For every template identifier, every combination of the two
  option flags and every project name, a file list returned by \<open>generateFiles\<close> has no
  two entries with the same path. This holds for every catalog: a catalog in which two
  retained blueprints resolve to one path makes the engine fail instead.
\<close>

theorem generateFiles_paths_unique:
  "generateFiles cat n ident opts = Inr fs \<Longrightarrow> distinct (map path fs)"
  by (auto simp: generateFiles_def split: option.splits sum.splits if_splits)

text \<open>
  The theorem at the example catalog: generation succeeds with four files, whose paths are
  pairwise different.
\<close>

theorem generateFiles_paths_unique_witness:
  "generateFiles exampleCatalog ''user-api'' ''TypeScript/Express''
     \<lparr>includeTests = True, includeLinter = True\<rparr> =
     Inr [\<lparr>path = ''package.json'', content = ''name: user-api jest eslint'', language = ''json''\<rparr>,
          \<lparr>path = ''Dockerfile'', content = ''LABEL user-api'', language = ''dockerfile''\<rparr>,
          \<lparr>path = ''jest.config.js'', content = ''displayName: user-api'', language = ''javascript''\<rparr>,
          \<lparr>path = ''.eslintrc.json'', content = ''root: true'', language = ''json''\<rparr>] \<and>
   distinct (map path
         [\<lparr>path = ''package.json'', content = ''name: user-api jest eslint'', language = ''json''\<rparr>,
          \<lparr>path = ''Dockerfile'', content = ''LABEL user-api'', language = ''dockerfile''\<rparr>,
          \<lparr>path = ''jest.config.js'', content = ''displayName: user-api'', language = ''javascript''\<rparr>,
          \<lparr>path = ''.eslintrc.json'', content = ''root: true'', language = ''json''\<rparr>])"
proof -
  have g: "generateFiles exampleCatalog ''user-api'' ''TypeScript/Express''
     \<lparr>includeTests = True, includeLinter = True\<rparr> =
     Inr [\<lparr>path = ''package.json'', content = ''name: user-api jest eslint'', language = ''json''\<rparr>,
          \<lparr>path = ''Dockerfile'', content = ''LABEL user-api'', language = ''dockerfile''\<rparr>,
          \<lparr>path = ''jest.config.js'', content = ''displayName: user-api'', language = ''javascript''\<rparr>,
          \<lparr>path = ''.eslintrc.json'', content = ''root: true'', language = ''json''\<rparr>]"
    by code_simp
  from g generateFiles_paths_unique [OF g] show ?thesis by (intro conjI)
qed

lemma fill_name_free: "NamePlaceholder \<notin> set ps \<Longrightarrow> fill n1 ps = fill n2 ps"
proof (induction ps)
  case Nil
  show ?case by (simp add: fill_def)
next
  case (Cons p ps)
  then show ?case by (cases p) (simp_all add: fill_def)
qed

text \<open>
  Claim C5 (name substitution completeness). Whenever generation succeeds for the names
  \<open>n1\<close> and \<open>n2\<close> with the same supported template and options, each output is, file by
  file and in the catalog's order, the list of the template's retained blueprints with
  every placeholder of the path pattern and of the active content replaced by the
  respective name and every literal left as it is, under the blueprint's language tag. So
  no placeholder is left in the output, both outputs have the same number of files and the
  same language tags, and a path or content whose template bears no name is byte-identical
  in both.
\<close>

theorem name_substitution_complete:
  assumes t: "templateOfIdentifier ident = Some t"
    and g1: "generateFiles cat n1 ident opts = Inr fs1"
    and g2: "generateFiles cat n2 ident opts = Inr fs2"
  shows "fs1 = map (\<lambda>bp. \<lparr>path = fill n1 (pathPattern bp),
                          content = fill n1 (activeFragments opts (contentTemplate bp)),
                          language = languageTag bp\<rparr>)
                 (filter (gate opts) (cat t)) \<and>
         fs2 = map (\<lambda>bp. \<lparr>path = fill n2 (pathPattern bp),
                          content = fill n2 (activeFragments opts (contentTemplate bp)),
                          language = languageTag bp\<rparr>)
                 (filter (gate opts) (cat t)) \<and>
         length fs1 = length fs2 \<and>
         map language fs1 = map language fs2 \<and>
         (\<forall>i < length fs1.
            (NamePlaceholder \<notin> set (pathPattern (filter (gate opts) (cat t) ! i))
               \<longrightarrow> path (fs1 ! i) = path (fs2 ! i)) \<and>
            (NamePlaceholder \<notin> set (activeFragments opts
                                       (contentTemplate (filter (gate opts) (cat t) ! i)))
               \<longrightarrow> content (fs1 ! i) = content (fs2 ! i)))"
proof -
  let ?bps = "filter (gate opts) (cat t)"
  have e1: "fs1 = map (render n1 opts) ?bps" by (rule generateFiles_Inr(1) [OF g1 t])
  have e2: "fs2 = map (render n2 opts) ?bps" by (rule generateFiles_Inr(1) [OF g2 t])
  have "\<forall>i < length fs1.
            (NamePlaceholder \<notin> set (pathPattern (?bps ! i))
               \<longrightarrow> path (fs1 ! i) = path (fs2 ! i)) \<and>
            (NamePlaceholder \<notin> set (activeFragments opts (contentTemplate (?bps ! i)))
               \<longrightarrow> content (fs1 ! i) = content (fs2 ! i))"
    unfolding e1 e2 by (auto simp: render_def intro: fill_name_free)
  moreover have "fs1 = map (\<lambda>bp. \<lparr>path = fill n1 (pathPattern bp),
                          content = fill n1 (activeFragments opts (contentTemplate bp)),
                          language = languageTag bp\<rparr>) ?bps"
    unfolding e1 by (simp add: render_def)
  moreover have "fs2 = map (\<lambda>bp. \<lparr>path = fill n2 (pathPattern bp),
                          content = fill n2 (activeFragments opts (contentTemplate bp)),
                          language = languageTag bp\<rparr>) ?bps"
    unfolding e2 by (simp add: render_def)
  moreover have "length fs1 = length fs2" unfolding e1 e2 by simp
  moreover have "map language fs1 = map language fs2" unfolding e1 e2 by simp
  ultimately show ?thesis by (intro conjI)
qed

text \<open>
  The theorem at the Go template of the example catalog, whose first path embeds the name,
  for the names \<open>user-api\<close> and \<open>billing\<close>.
\<close>

theorem name_substitution_complete_witness:
  "templateOfIdentifier ''Go/Clean-Arch'' = Some GO_CLEAN_ARCH \<and>
   generateFiles exampleCatalog ''user-api'' ''Go/Clean-Arch''
     \<lparr>includeTests = False, includeLinter = False\<rparr> =
     Inr [\<lparr>path = ''cmd/user-api/main.go'', content = ''package main'', language = ''go''\<rparr>,
          \<lparr>path = ''go.mod'', content = ''module user-api'', language = ''go''\<rparr>] \<and>
   generateFiles exampleCatalog ''billing'' ''Go/Clean-Arch''
     \<lparr>includeTests = False, includeLinter = False\<rparr> =
     Inr [\<lparr>path = ''cmd/billing/main.go'', content = ''package main'', language = ''go''\<rparr>,
          \<lparr>path = ''go.mod'', content = ''module billing'', language = ''go''\<rparr>] \<and>
   [\<lparr>path = ''cmd/user-api/main.go'', content = ''package main'', language = ''go''\<rparr>,
    \<lparr>path = ''go.mod'', content = ''module user-api'', language = ''go''\<rparr>] =
     map (\<lambda>bp. \<lparr>path = fill ''user-api'' (pathPattern bp),
                  content = fill ''user-api''
                    (activeFragments \<lparr>includeTests = False, includeLinter = False\<rparr>
                       (contentTemplate bp)),
                  language = languageTag bp\<rparr>)
       (filter (gate \<lparr>includeTests = False, includeLinter = False\<rparr>)
          (exampleCatalog GO_CLEAN_ARCH))"
proof -
  have t: "templateOfIdentifier ''Go/Clean-Arch'' = Some GO_CLEAN_ARCH"
    by code_simp
  have g1: "generateFiles exampleCatalog ''user-api'' ''Go/Clean-Arch''
     \<lparr>includeTests = False, includeLinter = False\<rparr> =
     Inr [\<lparr>path = ''cmd/user-api/main.go'', content = ''package main'', language = ''go''\<rparr>,
          \<lparr>path = ''go.mod'', content = ''module user-api'', language = ''go''\<rparr>]"
    by code_simp
  have g2: "generateFiles exampleCatalog ''billing'' ''Go/Clean-Arch''
     \<lparr>includeTests = False, includeLinter = False\<rparr> =
     Inr [\<lparr>path = ''cmd/billing/main.go'', content = ''package main'', language = ''go''\<rparr>,
          \<lparr>path = ''go.mod'', content = ''module billing'', language = ''go''\<rparr>]"
    by code_simp
  from name_substitution_complete [OF t g1 g2]
  have e: "[\<lparr>path = ''cmd/user-api/main.go'', content = ''package main'', language = ''go''\<rparr>,
    \<lparr>path = ''go.mod'', content = ''module user-api'', language = ''go''\<rparr>] =
     map (\<lambda>bp. \<lparr>path = fill ''user-api'' (pathPattern bp),
                  content = fill ''user-api''
                    (activeFragments \<lparr>includeTests = False, includeLinter = False\<rparr>
                       (contentTemplate bp)),
                  language = languageTag bp\<rparr>)
       (filter (gate \<lparr>includeTests = False, includeLinter = False\<rparr>)
          (exampleCatalog GO_CLEAN_ARCH))"
    by (rule conjunct1)
  from t g1 g2 e show ?thesis by (intro conjI)
qed

















end
